theory Spec2Isabelle
  imports Main
begin

unbundle bit_operations_syntax

section \<open>Python values used by neopixel.py\<close>

text \<open>
  The two exceptions the strip's methods can raise on integer arguments: \<open>IndexError\<close>
  from list subscription, and \<open>AttributeError\<close> from reading \<open>self._sim\<close> on an
  instance whose \<open>begin\<close> was never called.
\<close>

datatype py_error = IndexError | AttributeError

text \<open>
  Subscription of a Python list by an integer: a negative index counts from the end,
  and an index outside \<open>[-len, len)\<close> raises \<open>IndexError\<close>. \<open>py_index\<close> is the
  position that is read or written.
\<close>

definition py_index :: "'a list \<Rightarrow> int \<Rightarrow> nat option" where
  "py_index xs n =
     (let len = int (length xs);
          j = (if n < 0 then n + len else n)
      in if 0 \<le> j \<and> j < len then Some (nat j) else None)"

definition list_getitem :: "'a list \<Rightarrow> int \<Rightarrow> py_error + 'a" where
  "list_getitem xs n =
     (case py_index xs n of None \<Rightarrow> Inl IndexError | Some j \<Rightarrow> Inr (xs ! j))"

definition list_setitem :: "'a list \<Rightarrow> int \<Rightarrow> 'a \<Rightarrow> py_error + 'a list" where
  "list_setitem xs n v =
     (case py_index xs n of None \<Rightarrow> Inl IndexError | Some j \<Rightarrow> Inr (xs[j := v]))"

text \<open>\<open>wx.Colour(red, green, blue)\<close>: the decoded triple held by the snapshot.\<close>

datatype colour = Colour int int int

section \<open>Color\<close>

text \<open>
  \<open>Color(red, green, blue, white=0)\<close> returns
  \<open>(white << 24) | (red << 16) | (green << 8) | blue\<close> on Python's unbounded integers.
\<close>

definition Color :: "int \<Rightarrow> int \<Rightarrow> int \<Rightarrow> int \<Rightarrow> int" where
  "Color red green blue white =
     (((push_bit 24 white) OR (push_bit 16 red)) OR (push_bit 8 green)) OR blue"

section \<open>Simulation\<close>

text \<open>
  Of the viewer thread the strip only touches \<open>Simulation._initialized\<close> and, through
  \<open>Simulation.update\<close>, the frame's \<open>_need_update\<close> flag. \<open>Simulation\<close> is the
  constructor, \<open>Simulation_run\<close> the part of \<open>run\<close> before the GUI main loop (the frame
  is built with \<open>_need_update = False\<close>, then \<open>_initialized\<close> is set), and
  \<open>Simulation_update\<close> is \<open>update\<close>.
\<close>

record simulation =
  initialized :: bool
  need_update :: bool

definition Simulation :: simulation where
  "Simulation = \<lparr>initialized = False, need_update = False\<rparr>"

definition Simulation_run :: "simulation \<Rightarrow> simulation" where
  "Simulation_run sm = sm\<lparr>need_update := False, initialized := True\<rparr>"

definition Simulation_update :: "simulation \<Rightarrow> simulation" where
  "Simulation_update sm =
     (if \<not> initialized sm then sm else sm\<lparr>need_update := True\<rparr>)"

section \<open>Adafruit_NeoPixel\<close>

text \<open>
  The instance: \<open>_buffer\<close>, \<open>_displayed\<close> and \<open>_sim\<close>, the last one absent (\<open>None\<close>)
  until \<open>begin\<close> assigns it. The lock is held only inside \<open>show\<close> and \<open>getDisplayed\<close>
  and is free again when either returns, so a sequential caller never observes it.
\<close>

record strip =
  buffer :: "int list"
  displayed :: "colour list"
  sim :: "simulation option"

text \<open>\<open>__init__(num)\<close>: \<open>[0] * num\<close> is the empty list when \<open>num\<close> is negative.\<close>

definition Adafruit_NeoPixel :: "int \<Rightarrow> strip" where
  "Adafruit_NeoPixel num =
     \<lparr>buffer = replicate (nat num) 0,
      displayed = replicate (nat num) (Colour 0 0 0),
      sim = None\<rparr>"

definition begin_strip :: "strip \<Rightarrow> strip" where
  "begin_strip s = s\<lparr>sim := Some Simulation\<rparr>"

text \<open>The element expression of the list comprehension in \<open>show\<close>.\<close>

definition decode :: "int \<Rightarrow> colour" where
  "decode c = Colour ((drop_bit 16 c) AND 255) ((drop_bit 8 c) AND 255) (c AND 255)"

text \<open>
  \<open>show\<close>: the snapshot is replaced first; \<open>self._sim.update()\<close> comes after the
  \<open>with\<close> block and raises \<open>AttributeError\<close> when \<open>_sim\<close> was never assigned.
  Every method returns its outcome together with the instance afterwards.
\<close>

definition show_strip :: "strip \<Rightarrow> (py_error + unit) \<times> strip" where
  "show_strip s =
     (let s' = s\<lparr>displayed := map decode (buffer s)\<rparr>
      in case sim s' of
           None \<Rightarrow> (Inl AttributeError, s')
         | Some sm \<Rightarrow> (Inr (), s'\<lparr>sim := Some (Simulation_update sm)\<rparr>))"

definition setPixelColor :: "strip \<Rightarrow> int \<Rightarrow> int \<Rightarrow> (py_error + unit) \<times> strip" where
  "setPixelColor s n color =
     (case list_setitem (buffer s) n color of
        Inl e \<Rightarrow> (Inl e, s)
      | Inr b \<Rightarrow> (Inr (), s\<lparr>buffer := b\<rparr>))"

definition setPixelColorRGB ::
  "strip \<Rightarrow> int \<Rightarrow> int \<Rightarrow> int \<Rightarrow> int \<Rightarrow> int \<Rightarrow> (py_error + unit) \<times> strip" where
  "setPixelColorRGB s n red green blue white =
     setPixelColor s n (Color red green blue white)"

definition getPixels :: "strip \<Rightarrow> int list" where
  "getPixels s = buffer s"

definition numPixels :: "strip \<Rightarrow> int" where
  "numPixels s = int (length (buffer s))"

definition getPixelColor :: "strip \<Rightarrow> int \<Rightarrow> py_error + int" where
  "getPixelColor s n = list_getitem (buffer s) n"

definition getDisplayed :: "strip \<Rightarrow> colour list" where
  "getDisplayed s = displayed s"

section \<open>Sequences of calls\<close>

text \<open>
  A call of one of the strip's methods, or a step of the viewer thread. \<open>exec\<close> gives the
  instance after the call, whether it returned or raised: a caller that catches the
  exception goes on with that instance.
\<close>

datatype op =
    Begin
  | Show
  | SetPixelColor int int
  | SetPixelColorRGB int int int int int
  | GetPixelColor int
  | GetDisplayed
  | NumPixels
  | ViewerRun

fun exec :: "op \<Rightarrow> strip \<Rightarrow> strip" where
  "exec Begin s = begin_strip s"
| "exec Show s = snd (show_strip s)"
| "exec (SetPixelColor n c) s = snd (setPixelColor s n c)"
| "exec (SetPixelColorRGB n r g b w) s = snd (setPixelColorRGB s n r g b w)"
| "exec (GetPixelColor n) s = s"
| "exec GetDisplayed s = s"
| "exec NumPixels s = s"
| "exec ViewerRun s = s\<lparr>sim := map_option Simulation_run (sim s)\<rparr>"

fun run_ops :: "op list \<Rightarrow> strip \<Rightarrow> strip" where
  "run_ops [] s = s"
| "run_ops (x # xs) s = run_ops xs (exec x s)"

fun is_write :: "op \<Rightarrow> bool" where
  "is_write (SetPixelColor n c) = True"
| "is_write (SetPixelColorRGB n r g b w) = True"
| "is_write x = False"

section \<open>Basic facts\<close>

lemma py_index_valid:
  "0 \<le> n \<Longrightarrow> n < int (length xs) \<Longrightarrow> py_index xs n = Some (nat n)"
  by (simp add: py_index_def)

lemma py_index_negative:
  "- int (length xs) \<le> n \<Longrightarrow> n < 0 \<Longrightarrow> py_index xs n = Some (nat (int (length xs) + n))"
  by (simp add: py_index_def Let_def add.commute)

lemma py_index_outside:
  "n < - int (length xs) \<or> int (length xs) \<le> n \<Longrightarrow> py_index xs n = None"
  by (auto simp: py_index_def Let_def)

lemma py_index_bound: "py_index xs n = Some j \<Longrightarrow> j < length xs"
  by (auto simp: py_index_def Let_def split: if_splits)

lemma setPixelColor_displayed [simp]: "displayed (snd (setPixelColor s n c)) = displayed s"
  by (simp add: setPixelColor_def split: sum.splits)

lemma setPixelColor_sim [simp]: "sim (snd (setPixelColor s n c)) = sim s"
  by (simp add: setPixelColor_def split: sum.splits)

lemma setPixelColor_length [simp]:
  "length (buffer (snd (setPixelColor s n c))) = length (buffer s)"
  by (auto simp: setPixelColor_def list_setitem_def split: sum.splits option.splits)

lemma show_strip_displayed [simp]:
  "displayed (snd (show_strip s)) = map decode (buffer s)"
  by (simp add: show_strip_def Let_def split: option.splits)

lemma show_strip_buffer [simp]: "buffer (snd (show_strip s)) = buffer s"
  by (simp add: show_strip_def Let_def split: option.splits)

lemma setPixelColor_valid:
  "0 \<le> n \<Longrightarrow> n < int (length (buffer s)) \<Longrightarrow>
   setPixelColor s n c = (Inr (), s\<lparr>buffer := (buffer s)[nat n := c]\<rparr>)"
  by (simp add: setPixelColor_def list_setitem_def py_index_valid)

lemma setPixelColorRGB_valid:
  "0 \<le> n \<Longrightarrow> n < int (length (buffer s)) \<Longrightarrow>
   setPixelColorRGB s n r g b w =
     (Inr (), s\<lparr>buffer := (buffer s)[nat n := Color r g b w]\<rparr>)"
  by (simp add: setPixelColorRGB_def setPixelColor_valid)

lemma setPixelColor_outside:
  "n < - int (length (buffer s)) \<or> int (length (buffer s)) \<le> n \<Longrightarrow>
   setPixelColor s n c = (Inl IndexError, s)"
  by (simp add: setPixelColor_def list_setitem_def py_index_outside)

lemma setPixelColor_error: "fst (setPixelColor s n c) = Inl e \<Longrightarrow> e = IndexError"
  by (auto simp: setPixelColor_def list_setitem_def split: option.splits)

lemma getPixelColor_error: "getPixelColor s n = Inl e \<Longrightarrow> e = IndexError"
  by (auto simp: getPixelColor_def list_getitem_def split: option.splits)

subsection \<open>What a sequence of calls preserves\<close>

lemma exec_length_buffer [simp]: "length (buffer (exec x s)) = length (buffer s)"
  by (cases x) (simp_all add: begin_strip_def setPixelColorRGB_def)

lemma run_ops_length_buffer [simp]: "length (buffer (run_ops xs s)) = length (buffer s)"
  by (induction xs arbitrary: s) simp_all

lemma exec_snapshot_length:
  "length (displayed s) = length (buffer s) \<Longrightarrow>
   length (displayed (exec x s)) = length (buffer (exec x s))"
  by (cases x) (simp_all add: begin_strip_def setPixelColorRGB_def)

lemma run_ops_snapshot_length:
  "length (displayed s) = length (buffer s) \<Longrightarrow>
   length (displayed (run_ops xs s)) = length (buffer (run_ops xs s))"
proof (induction xs arbitrary: s)
  case Nil
  then show ?case by simp
next
  case (Cons x xs)
  have "length (displayed (exec x s)) = length (buffer (exec x s))"
    using Cons.prems by (rule exec_snapshot_length)
  then show ?case using Cons.IH by simp
qed

lemma exec_write_displayed: "is_write x \<Longrightarrow> displayed (exec x s) = displayed s"
  by (cases x) (simp_all add: setPixelColorRGB_def)

lemma run_ops_writes_displayed:
  "list_all is_write xs \<Longrightarrow> displayed (run_ops xs s) = displayed s"
  by (induction xs arbitrary: s) (simp_all add: exec_write_displayed)

lemma exec_sim_None: "x \<noteq> Begin \<Longrightarrow> sim s = None \<Longrightarrow> sim (exec x s) = None"
  by (cases x) (simp_all add: setPixelColorRGB_def show_strip_def Let_def)

lemma run_ops_sim_None: "Begin \<notin> set xs \<Longrightarrow> sim s = None \<Longrightarrow> sim (run_ops xs s) = None"
proof (induction xs arbitrary: s)
  case Nil
  then show ?case by simp
next
  case (Cons x xs)
  from Cons.prems have "x \<noteq> Begin" and "Begin \<notin> set xs" by auto
  moreover from \<open>x \<noteq> Begin\<close> Cons.prems(2) have "sim (exec x s) = None"
    by (rule exec_sim_None)
  ultimately show ?case using Cons.IH by simp
qed

subsection \<open>Packing and decoding bytes\<close>

lemma and_255: "(x::int) AND 255 = take_bit 8 x"
proof -
  have "(255::int) = mask 8" by (simp add: mask_eq_exp_minus_1)
  then show ?thesis by (simp add: take_bit_eq_mask)
qed

lemma byte_bit_high:
  assumes "0 \<le> (x::int)" and "x \<le> 255" and "8 \<le> n"
  shows "\<not> bit x n"
proof -
  have "take_bit 8 x = x" using assms by (simp add: take_bit_int_eq_self)
  then have "bit x n = bit (take_bit 8 x) n" by simp
  also have "\<dots> = (n < 8 \<and> bit x n)" by (simp add: bit_take_bit_iff)
  finally show ?thesis using assms by simp
qed

lemma decode_Color:
  assumes "0 \<le> r" "r \<le> 255" "0 \<le> g" "g \<le> 255" "0 \<le> b" "b \<le> 255"
  shows "decode (Color r g b w) = Colour r g b"
proof -
  let ?c = "Color r g b w"
  have R: "take_bit 8 (drop_bit 16 ?c) = r"
  proof (rule bit_eqI)
    fix n
    show "bit (take_bit 8 (drop_bit 16 ?c)) n = bit r n"
      using byte_bit_high [OF assms(1,2), of n] byte_bit_high [OF assms(3,4), of "8 + n"]
        byte_bit_high [OF assms(5,6), of "16 + n"]
      by (auto simp: Color_def bit_take_bit_iff bit_drop_bit_eq bit_or_iff bit_push_bit_iff)
  qed
  have G: "take_bit 8 (drop_bit 8 ?c) = g"
  proof (rule bit_eqI)
    fix n
    show "bit (take_bit 8 (drop_bit 8 ?c)) n = bit g n"
      using byte_bit_high [OF assms(3,4), of n] byte_bit_high [OF assms(5,6), of "8 + n"]
      by (auto simp: Color_def bit_take_bit_iff bit_drop_bit_eq bit_or_iff bit_push_bit_iff)
  qed
  have B: "take_bit 8 ?c = b"
  proof (rule bit_eqI)
    fix n
    show "bit (take_bit 8 ?c) n = bit b n"
      using byte_bit_high [OF assms(5,6), of n]
      by (auto simp: Color_def bit_take_bit_iff bit_or_iff bit_push_bit_iff)
  qed
  show ?thesis by (simp add: decode_def and_255 R G B)
qed

section \<open>Writes and the published snapshot\<close>

text \<open>
  C1. For every instance and every valid index \<open>n\<close>, \<open>setPixelColor(n, c)\<close> and
  \<open>setPixelColorRGB(n, r, g, b, w)\<close> leave the value of \<open>getDisplayed()\<close> unchanged.
  The write reaches the snapshot with the next \<open>show()\<close>: entry \<open>n\<close> is then the
  decoded colour that was written. Any number of writes \<open>ws\<close> made after one \<open>show()\<close>
  leave \<open>getDisplayed()\<close> as it was, and the following \<open>show()\<close> publishes the decoded
  buffer with all of them.
\<close>

theorem writes_invisible_until_show:
  assumes "0 \<le> n" and "n < numPixels s"
  shows "getDisplayed (snd (setPixelColor s n c)) = getDisplayed s
       \<and> getDisplayed (snd (setPixelColorRGB s n r g b w)) = getDisplayed s
       \<and> fst (setPixelColor s n c) = Inr ()
       \<and> fst (setPixelColorRGB s n r g b w) = Inr ()
       \<and> getDisplayed (snd (show_strip (snd (setPixelColor s n c)))) ! nat n = decode c
       \<and> getDisplayed (snd (show_strip (snd (setPixelColorRGB s n r g b w)))) ! nat n
           = decode (Color r g b w)
       \<and> (list_all is_write ws \<longrightarrow>
            getDisplayed (run_ops ws (snd (show_strip s))) = getDisplayed (snd (show_strip s))
          \<and> getDisplayed (snd (show_strip (run_ops ws (snd (show_strip s)))))
              = map decode (getPixels (run_ops ws (snd (show_strip s)))))"
proof -
  from assms have valid: "0 \<le> n" "n < int (length (buffer s))"
    by (simp_all add: numPixels_def)
  then have pos: "nat n < length (buffer s)" by simp
  have w1: "setPixelColor s n c = (Inr (), s\<lparr>buffer := (buffer s)[nat n := c]\<rparr>)"
    using valid by (rule setPixelColor_valid)
  have w2: "setPixelColorRGB s n r g b w
              = (Inr (), s\<lparr>buffer := (buffer s)[nat n := Color r g b w]\<rparr>)"
    using valid by (rule setPixelColorRGB_valid)
  have a: "getDisplayed (snd (setPixelColor s n c)) = getDisplayed s"
    by (simp add: getDisplayed_def)
  have b: "getDisplayed (snd (setPixelColorRGB s n r g b w)) = getDisplayed s"
    by (simp add: getDisplayed_def setPixelColorRGB_def)
  have c: "getDisplayed (snd (show_strip (snd (setPixelColor s n c)))) ! nat n = decode c"
    using pos by (simp add: getDisplayed_def w1)
  have d: "getDisplayed (snd (show_strip (snd (setPixelColorRGB s n r g b w)))) ! nat n
             = decode (Color r g b w)"
    using pos by (simp add: getDisplayed_def w2)
  have e: "list_all is_write ws \<longrightarrow>
            getDisplayed (run_ops ws (snd (show_strip s))) = getDisplayed (snd (show_strip s))
          \<and> getDisplayed (snd (show_strip (run_ops ws (snd (show_strip s)))))
              = map decode (getPixels (run_ops ws (snd (show_strip s))))"
    by (simp add: getDisplayed_def getPixels_def run_ops_writes_displayed)
  from a b c d e show ?thesis by (simp add: w1 w2)
qed

theorem writes_invisible_until_show_witness:
  "(0::int) \<le> 1 \<and> 1 < numPixels (Adafruit_NeoPixel 2)
   \<and> list_all is_write [SetPixelColor 0 7, SetPixelColorRGB 1 1 2 3 0]
   \<and> getDisplayed (snd (setPixelColor (Adafruit_NeoPixel 2) 1 5))
       = getDisplayed (Adafruit_NeoPixel 2)
   \<and> getDisplayed (snd (show_strip (snd (setPixelColor (Adafruit_NeoPixel 2) 1 5)))) ! nat 1
       = decode 5
   \<and> getDisplayed (run_ops [SetPixelColor 0 7, SetPixelColorRGB 1 1 2 3 0]
         (snd (show_strip (Adafruit_NeoPixel 2))))
       = getDisplayed (snd (show_strip (Adafruit_NeoPixel 2)))"
proof -
  have h1: "(0::int) \<le> 1" by simp
  have h2: "1 < numPixels (Adafruit_NeoPixel 2)"
    by (simp add: numPixels_def Adafruit_NeoPixel_def)
  have h3: "list_all is_write [SetPixelColor 0 7, SetPixelColorRGB 1 1 2 3 0]" by simp
  show ?thesis
    using h1 h2 h3
      writes_invisible_until_show [OF h1 h2, of 5 0 0 0 0
        "[SetPixelColor 0 7, SetPixelColorRGB 1 1 2 3 0]"]
    by simp
qed

section \<open>Round trip of the colour channels\<close>

text \<open>
  C2. For all channel values \<open>r\<close>, \<open>g\<close>, \<open>b\<close> in \<open>[0, 255]\<close> and every white value,
  in \<open>[0, 255]\<close> or not, the decode used by \<open>show()\<close> (bits 16-23, 8-15, 0-7) maps
  \<open>Color(r, g, b, w)\<close> to the colour \<open>(r, g, b)\<close>: white is dropped. For every valid
  index \<open>i\<close>, \<open>setPixelColor(i, Color(r, g, b, w))\<close> followed by \<open>show()\<close> makes
  \<open>getDisplayed()[i]\<close> the colour \<open>(r, g, b)\<close>.
\<close>

theorem decode_Color_roundtrip:
  assumes "0 \<le> r" "r \<le> 255" "0 \<le> g" "g \<le> 255" "0 \<le> b" "b \<le> 255"
    and "0 \<le> i" "i < numPixels s"
  shows "decode (Color r g b w) = Colour r g b
       \<and> getDisplayed (snd (show_strip (snd (setPixelColor s i (Color r g b w))))) ! nat i
           = Colour r g b"
proof -
  have dec: "decode (Color r g b w) = Colour r g b"
    using assms(1-6) by (rule decode_Color)
  from assms(7,8) have valid: "0 \<le> i" "i < int (length (buffer s))"
    by (simp_all add: numPixels_def)
  then have pos: "nat i < length (buffer s)" by simp
  have "setPixelColor s i (Color r g b w)
          = (Inr (), s\<lparr>buffer := (buffer s)[nat i := Color r g b w]\<rparr>)"
    using valid by (rule setPixelColor_valid)
  then have "getDisplayed (snd (show_strip (snd (setPixelColor s i (Color r g b w))))) ! nat i
               = decode (Color r g b w)"
    using pos by (simp add: getDisplayed_def)
  with dec show ?thesis by simp
qed

theorem decode_Color_roundtrip_witness:
  "(0::int) \<le> 200 \<and> (200::int) \<le> 255 \<and> (0::int) \<le> 100 \<and> (100::int) \<le> 255
   \<and> (0::int) \<le> 50 \<and> (50::int) \<le> 255
   \<and> (0::int) \<le> 2 \<and> 2 < numPixels (begin_strip (Adafruit_NeoPixel 3))
   \<and> decode (Color 200 100 50 25) = Colour 200 100 50
   \<and> getDisplayed (snd (show_strip
        (snd (setPixelColor (begin_strip (Adafruit_NeoPixel 3)) 2 (Color 200 100 50 25)))))
       ! nat 2 = Colour 200 100 50"
proof -
  have h: "2 < numPixels (begin_strip (Adafruit_NeoPixel 3))"
    by (simp add: numPixels_def begin_strip_def Adafruit_NeoPixel_def)
  show ?thesis
    using h decode_Color_roundtrip [of 200 100 50 2 "begin_strip (Adafruit_NeoPixel 3)" 25]
    by simp
qed

section \<open>Publishing twice\<close>

text \<open>
  C5. \<open>show()\<close> is idempotent on an unchanged buffer: for every instance, a second
  \<open>show()\<close> with no write in between leaves \<open>getDisplayed()\<close> equal to what the first
  one published.
\<close>

theorem show_idempotent:
  "getDisplayed (snd (show_strip (snd (show_strip s)))) = getDisplayed (snd (show_strip s))"
  by (simp add: getDisplayed_def)

section \<open>show before begin\<close>

text \<open>
  C9. On an instance on which \<open>begin()\<close> was never called, whatever other calls were
  made since construction, \<open>show()\<close> raises \<open>AttributeError\<close> (there is no \<open>_sim\<close>),
  and the instance it leaves behind differs from the one before only in the snapshot,
  which is the freshly decoded buffer: \<open>getDisplayed()\<close> returns it afterwards.
\<close>

theorem show_before_begin_publishes_and_raises:
  assumes "Begin \<notin> set ops" and "s = run_ops ops (Adafruit_NeoPixel num)"
  shows "show_strip s = (Inl AttributeError, s\<lparr>displayed := map decode (buffer s)\<rparr>)
       \<and> getDisplayed (snd (show_strip s)) = map decode (getPixels s)"
proof -
  have "sim (Adafruit_NeoPixel num) = None" by (simp add: Adafruit_NeoPixel_def)
  with assms(1) have "sim (run_ops ops (Adafruit_NeoPixel num)) = None"
    by (rule run_ops_sim_None)
  with assms(2) have "sim s = None" by simp
  then show ?thesis by (simp add: show_strip_def Let_def getDisplayed_def getPixels_def)
qed

theorem show_before_begin_publishes_and_raises_witness:
  "Begin \<notin> set [SetPixelColor 0 5]
   \<and> fst (show_strip (run_ops [SetPixelColor 0 5] (Adafruit_NeoPixel 1))) = Inl AttributeError
   \<and> getDisplayed (run_ops [SetPixelColor 0 5] (Adafruit_NeoPixel 1)) = [Colour 0 0 0]
   \<and> getDisplayed (snd (show_strip (run_ops [SetPixelColor 0 5] (Adafruit_NeoPixel 1))))
       = [Colour 0 0 5]"
proof -
  have h: "Begin \<notin> set [SetPixelColor 0 5]" by simp
  show ?thesis
    using h show_before_begin_publishes_and_raises [OF h refl, of 1]
    by (simp add: setPixelColor_def list_setitem_def py_index_def Adafruit_NeoPixel_def
        getDisplayed_def getPixels_def decode_def)
qed

section \<open>Indices\<close>

text \<open>
  C3, as the code has it. For every instance with \<open>count\<close> pixels and every integer
  \<open>i\<close> with \<open>i \<ge> count\<close> or \<open>i < -count\<close>, each of \<open>setPixelColor(i, c)\<close>,
  \<open>getPixelColor(i)\<close> and \<open>setPixelColorRGB(i, r, g, b, w)\<close> raises \<open>IndexError\<close> and
  leaves the instance as it was; and \<open>IndexError\<close> is the only error any of the three
  raises, at any index \<open>j\<close>.
\<close>

theorem index_outside_raises_IndexError:
  assumes "i < - numPixels s \<or> numPixels s \<le> i"
  shows "setPixelColor s i c = (Inl IndexError, s)
       \<and> getPixelColor s i = Inl IndexError
       \<and> setPixelColorRGB s i r g b w = (Inl IndexError, s)
       \<and> (\<forall>e. fst (setPixelColor s j c) = Inl e \<longrightarrow> e = IndexError)
       \<and> (\<forall>e. getPixelColor s j = Inl e \<longrightarrow> e = IndexError)
       \<and> (\<forall>e. fst (setPixelColorRGB s j r g b w) = Inl e \<longrightarrow> e = IndexError)"
proof -
  from assms have out: "i < - int (length (buffer s)) \<or> int (length (buffer s)) \<le> i"
    by (simp add: numPixels_def)
  have a: "setPixelColor s i c = (Inl IndexError, s)"
    using out by (rule setPixelColor_outside)
  have b: "getPixelColor s i = Inl IndexError"
    using out by (simp add: getPixelColor_def list_getitem_def py_index_outside)
  have c: "setPixelColorRGB s i r g b w = (Inl IndexError, s)"
    unfolding setPixelColorRGB_def using out by (rule setPixelColor_outside)
  have d: "\<forall>e. fst (setPixelColor s j c) = Inl e \<longrightarrow> e = IndexError"
    by (blast dest: setPixelColor_error)
  have e: "\<forall>e. getPixelColor s j = Inl e \<longrightarrow> e = IndexError"
    by (blast dest: getPixelColor_error)
  have f: "\<forall>e. fst (setPixelColorRGB s j r g b w) = Inl e \<longrightarrow> e = IndexError"
    unfolding setPixelColorRGB_def by (blast dest: setPixelColor_error)
  from a b c d e f show ?thesis by blast
qed

theorem index_outside_raises_IndexError_witness:
  "(3 < - numPixels (Adafruit_NeoPixel 3) \<or> numPixels (Adafruit_NeoPixel 3) \<le> 3)
   \<and> setPixelColor (Adafruit_NeoPixel 3) 3 7 = (Inl IndexError, Adafruit_NeoPixel 3)
   \<and> getPixelColor (Adafruit_NeoPixel 3) 3 = Inl IndexError
   \<and> setPixelColorRGB (Adafruit_NeoPixel 3) 3 1 2 3 0 = (Inl IndexError, Adafruit_NeoPixel 3)
   \<and> fst (setPixelColor (Adafruit_NeoPixel 3) (- 4) 7) = Inl IndexError
   \<and> getPixelColor (Adafruit_NeoPixel 3) (- 4) = Inl IndexError
   \<and> fst (setPixelColorRGB (Adafruit_NeoPixel 3) (- 4) 1 2 3 0) = Inl IndexError"
proof -
  have h: "3 < - numPixels (Adafruit_NeoPixel 3) \<or> numPixels (Adafruit_NeoPixel 3) \<le> 3"
    by (simp add: numPixels_def Adafruit_NeoPixel_def)
  have g: "getPixelColor (Adafruit_NeoPixel 3) (- 4) = Inl IndexError"
    by (simp add: getPixelColor_def list_getitem_def py_index_def Adafruit_NeoPixel_def)
  have w: "setPixelColor (Adafruit_NeoPixel 3) (- 4) x = (Inl IndexError, Adafruit_NeoPixel 3)"
    for x
    by (simp add: setPixelColor_def list_setitem_def py_index_def Adafruit_NeoPixel_def)
  show ?thesis
    using h index_outside_raises_IndexError [OF h, of 7 1 2 3 0 "- 4"]
    by (simp add: g w setPixelColorRGB_def)
qed

text \<open>
  The claim as written also asks for the error at every negative index. On a strip of
  three pixels, index \<open>-1\<close> is read and written without error: it is the last pixel.
\<close>

theorem negative_index_no_error_counterexample:
  "getPixelColor (Adafruit_NeoPixel 3) (- 1) = Inr 0
   \<and> fst (setPixelColor (Adafruit_NeoPixel 3) (- 1) 7) = Inr ()
   \<and> fst (setPixelColorRGB (Adafruit_NeoPixel 3) (- 1) 1 2 3 0) = Inr ()
   \<and> getPixels (snd (setPixelColor (Adafruit_NeoPixel 3) (- 1) 7)) = [0, 0, 7]"
  by (simp add: getPixelColor_def list_getitem_def setPixelColorRGB_def setPixelColor_def
      list_setitem_def py_index_def Adafruit_NeoPixel_def getPixels_def numeral_3_eq_3)

text \<open>
  C8. For every instance with \<open>N\<close> pixels and every integer \<open>n\<close> with
  \<open>-N \<le> n < 0\<close>, \<open>getPixelColor(n)\<close> returns without error the value of pixel
  \<open>N + n\<close>, the same as \<open>getPixelColor(N + n)\<close>, and \<open>setPixelColor(n, c)\<close> returns
  without error having written pixel \<open>N + n\<close>, exactly as \<open>setPixelColor(N + n, c)\<close>
  does.
\<close>

theorem negative_index_aliases_from_end:
  assumes "- numPixels s \<le> n" and "n < 0"
  shows "getPixelColor s n = getPixelColor s (numPixels s + n)
       \<and> getPixelColor s n = Inr (getPixels s ! nat (numPixels s + n))
       \<and> setPixelColor s n c = setPixelColor s (numPixels s + n) c
       \<and> setPixelColor s n c
           = (Inr (), s\<lparr>buffer := (buffer s)[nat (numPixels s + n) := c]\<rparr>)"
proof -
  let ?len = "int (length (buffer s))"
  from assms have neg: "- ?len \<le> n" "n < 0" by (simp_all add: numPixels_def)
  then have i1: "py_index (buffer s) n = Some (nat (?len + n))"
    by (rule py_index_negative)
  from neg have "0 \<le> ?len + n" and "?len + n < ?len" by simp_all
  then have i2: "py_index (buffer s) (?len + n) = Some (nat (?len + n))"
    by (rule py_index_valid)
  show ?thesis
    by (simp add: getPixelColor_def list_getitem_def setPixelColor_def list_setitem_def
        numPixels_def getPixels_def i1 i2)
qed

theorem negative_index_aliases_from_end_witness:
  "- numPixels (snd (setPixelColor (Adafruit_NeoPixel 3) 1 9)) \<le> - 2 \<and> (- 2 :: int) < 0
   \<and> getPixelColor (snd (setPixelColor (Adafruit_NeoPixel 3) 1 9)) (- 2) = Inr 9
   \<and> getPixelColor (snd (setPixelColor (Adafruit_NeoPixel 3) 1 9)) 1 = Inr 9
   \<and> fst (setPixelColor (snd (setPixelColor (Adafruit_NeoPixel 3) 1 9)) (- 2) 4) = Inr ()
   \<and> getPixels (snd (setPixelColor (snd (setPixelColor (Adafruit_NeoPixel 3) 1 9)) (- 2) 4))
       = [0, 4, 0]"
proof -
  have st: "snd (setPixelColor (Adafruit_NeoPixel 3) 1 9)
              = \<lparr>buffer = [0, 9, 0], displayed = replicate 3 (Colour 0 0 0), sim = None\<rparr>"
    by (simp add: setPixelColor_def list_setitem_def py_index_def Adafruit_NeoPixel_def
        numeral_3_eq_3)
  have h1: "- numPixels (snd (setPixelColor (Adafruit_NeoPixel 3) 1 9)) \<le> - 2"
    by (simp add: st numPixels_def)
  have h2: "(- 2 :: int) < 0" by simp
  show ?thesis
    using h1 h2 negative_index_aliases_from_end [OF h1 h2, of 4]
    unfolding st
    by (simp add: numPixels_def getPixels_def getPixelColor_def list_getitem_def
        setPixelColor_def list_setitem_def py_index_def)
qed

section \<open>One write, then show\<close>

text \<open>
  C4, as the code has it. For every valid index \<open>i\<close>, after
  \<open>setPixelColorRGB(i, 10, 20, 30)\<close> followed by \<open>show()\<close>, \<open>getDisplayed()[i]\<close> is
  \<open>(10, 20, 30)\<close>, and for every valid \<open>j \<noteq> i\<close>, \<open>getDisplayed()[j]\<close> is the decoded
  colour of pixel \<open>j\<close> of the buffer as it was before the call; so it is unchanged from
  its value before the call whenever that value was already the decoded colour of
  pixel \<open>j\<close>, that is, whenever pixel \<open>j\<close> had no write not yet published.
\<close>

theorem setPixelColorRGB_show_displayed:
  assumes "0 \<le> i" and "i < numPixels s" and "0 \<le> j" and "j < numPixels s" and "j \<noteq> i"
  shows "getDisplayed (snd (show_strip (snd (setPixelColorRGB s i 10 20 30 0)))) ! nat i
           = Colour 10 20 30
       \<and> getDisplayed (snd (show_strip (snd (setPixelColorRGB s i 10 20 30 0)))) ! nat j
           = decode (getPixels s ! nat j)
       \<and> (getDisplayed s ! nat j = decode (getPixels s ! nat j) \<longrightarrow>
            getDisplayed (snd (show_strip (snd (setPixelColorRGB s i 10 20 30 0)))) ! nat j
              = getDisplayed s ! nat j)"
proof -
  let ?s' = "snd (show_strip (snd (setPixelColorRGB s i 10 20 30 0)))"
  from assms have vi: "0 \<le> i" "i < int (length (buffer s))"
    and pj: "nat j < length (buffer s)" and ne: "nat i \<noteq> nat j"
    by (simp_all add: numPixels_def)
  from vi have pi: "nat i < length (buffer s)" by simp
  have "setPixelColorRGB s i 10 20 30 0
          = (Inr (), s\<lparr>buffer := (buffer s)[nat i := Color 10 20 30 0]\<rparr>)"
    using vi by (rule setPixelColorRGB_valid)
  then have snap: "getDisplayed ?s' = map decode ((buffer s)[nat i := Color 10 20 30 0])"
    by (simp add: getDisplayed_def)
  have "decode (Color 10 20 30 0) = Colour 10 20 30"
    by (rule decode_Color) simp_all
  with pi have a: "getDisplayed ?s' ! nat i = Colour 10 20 30"
    by (simp add: snap)
  from pj ne have b: "getDisplayed ?s' ! nat j = decode (getPixels s ! nat j)"
    by (simp add: snap getPixels_def)
  from a b show ?thesis by simp
qed

theorem setPixelColorRGB_show_displayed_witness:
  "(0::int) \<le> 0 \<and> 0 < numPixels (begin_strip (Adafruit_NeoPixel 2))
   \<and> (0::int) \<le> 1 \<and> 1 < numPixels (begin_strip (Adafruit_NeoPixel 2)) \<and> (1::int) \<noteq> 0
   \<and> getDisplayed (begin_strip (Adafruit_NeoPixel 2)) ! nat 1
       = decode (getPixels (begin_strip (Adafruit_NeoPixel 2)) ! nat 1)
   \<and> getDisplayed (snd (show_strip
        (snd (setPixelColorRGB (begin_strip (Adafruit_NeoPixel 2)) 0 10 20 30 0)))) ! nat 0
       = Colour 10 20 30
   \<and> getDisplayed (snd (show_strip
        (snd (setPixelColorRGB (begin_strip (Adafruit_NeoPixel 2)) 0 10 20 30 0)))) ! nat 1
       = getDisplayed (begin_strip (Adafruit_NeoPixel 2)) ! nat 1"
proof -
  have st: "begin_strip (Adafruit_NeoPixel 2)
              = \<lparr>buffer = [0, 0], displayed = [Colour 0 0 0, Colour 0 0 0],
                 sim = Some Simulation\<rparr>"
    by (simp add: begin_strip_def Adafruit_NeoPixel_def numeral_2_eq_2)
  have h2: "0 < numPixels (begin_strip (Adafruit_NeoPixel 2))"
    and h4: "1 < numPixels (begin_strip (Adafruit_NeoPixel 2))"
    by (simp_all add: st numPixels_def)
  have h6: "getDisplayed (begin_strip (Adafruit_NeoPixel 2)) ! nat 1
              = decode (getPixels (begin_strip (Adafruit_NeoPixel 2)) ! nat 1)"
    by (simp add: st getDisplayed_def getPixels_def decode_def)
  show ?thesis
    using h2 h4 h6
      setPixelColorRGB_show_displayed [of 0 "begin_strip (Adafruit_NeoPixel 2)" 1]
    by simp
qed

text \<open>
  The claim as written asks for entry \<open>j\<close> to keep its value on every instance. On a
  strip of two pixels, started, with \<open>setPixelColor(1, 5)\<close> made and not yet shown,
  \<open>getDisplayed()[1]\<close> is black before \<open>setPixelColorRGB(0, 10, 20, 30)\<close> and is
  \<open>(0, 0, 5)\<close> after the \<open>show()\<close> that follows, both calls having returned normally.
\<close>

theorem setPixelColorRGB_show_other_pixel_counterexample:
  "getDisplayed (snd (setPixelColor (begin_strip (Adafruit_NeoPixel 2)) 1 5)) ! 1
     = Colour 0 0 0
   \<and> fst (setPixelColorRGB (snd (setPixelColor (begin_strip (Adafruit_NeoPixel 2)) 1 5))
        0 10 20 30 0) = Inr ()
   \<and> fst (show_strip (snd (setPixelColorRGB
        (snd (setPixelColor (begin_strip (Adafruit_NeoPixel 2)) 1 5)) 0 10 20 30 0))) = Inr ()
   \<and> getDisplayed (snd (show_strip (snd (setPixelColorRGB
        (snd (setPixelColor (begin_strip (Adafruit_NeoPixel 2)) 1 5)) 0 10 20 30 0)))) ! 1
     = Colour 0 0 5"
proof -
  have st: "snd (setPixelColor (begin_strip (Adafruit_NeoPixel 2)) 1 5)
              = \<lparr>buffer = [0, 5], displayed = [Colour 0 0 0, Colour 0 0 0],
                 sim = Some Simulation\<rparr>"
    by (simp add: setPixelColor_def list_setitem_def py_index_def begin_strip_def
        Adafruit_NeoPixel_def numeral_2_eq_2)
  show ?thesis
    unfolding st
    by (simp add: getDisplayed_def setPixelColorRGB_def setPixelColor_def list_setitem_def
        py_index_def show_strip_def Let_def decode_def)
qed

section \<open>Construction and the pixel count\<close>

text \<open>
  C6. For every pixel count \<open>N\<close> (a natural number), immediately after construction
  with \<open>N\<close>: \<open>numPixels()\<close> returns \<open>N\<close>, \<open>getPixelColor(i)\<close> returns \<open>0\<close> for every
  \<open>i\<close> in \<open>[0, N)\<close>, and \<open>getDisplayed()\<close> returns a list of exactly \<open>N\<close> entries, all
  black.
\<close>

theorem construction_state:
  "numPixels (Adafruit_NeoPixel (int N)) = int N
   \<and> (\<forall>i. 0 \<le> i \<and> i < int N \<longrightarrow> getPixelColor (Adafruit_NeoPixel (int N)) i = Inr 0)
   \<and> length (getDisplayed (Adafruit_NeoPixel (int N))) = N
   \<and> getDisplayed (Adafruit_NeoPixel (int N)) = replicate N (Colour 0 0 0)"
proof -
  have "getPixelColor (Adafruit_NeoPixel (int N)) i = Inr 0" if "0 \<le> i \<and> i < int N" for i
  proof -
    from that have "nat i < N" by linarith
    with that show ?thesis
      by (simp add: getPixelColor_def list_getitem_def py_index_valid Adafruit_NeoPixel_def)
  qed
  then show ?thesis
    by (simp add: numPixels_def getDisplayed_def Adafruit_NeoPixel_def)
qed

theorem construction_state_witness:
  "numPixels (Adafruit_NeoPixel (int 3)) = int 3
   \<and> (0::int) \<le> 2 \<and> 2 < int 3 \<and> getPixelColor (Adafruit_NeoPixel (int 3)) 2 = Inr 0
   \<and> getDisplayed (Adafruit_NeoPixel (int 3)) = [Colour 0 0 0, Colour 0 0 0, Colour 0 0 0]"
proof -
  have "getPixelColor (Adafruit_NeoPixel (int 3)) 2 = Inr 0"
    using construction_state [of 3] by simp
  then show ?thesis
    using construction_state [of 3] by (simp add: numeral_3_eq_3)
qed

text \<open>
  C7. The pixel count is fixed: after any sequence of \<open>setPixelColor\<close>,
  \<open>setPixelColorRGB\<close>, \<open>getPixelColor\<close>, \<open>show\<close> and \<open>getDisplayed\<close> calls (and of
  \<open>begin\<close>, \<open>numPixels\<close> and viewer steps as well), whether they returned or raised,
  \<open>numPixels()\<close> returns what it returned before, which is \<open>N\<close> after construction
  with count \<open>N\<close>.
\<close>

theorem numPixels_fixed:
  "numPixels (run_ops ops s) = numPixels s
   \<and> numPixels (run_ops ops (Adafruit_NeoPixel (int N))) = int N"
  by (simp add: numPixels_def Adafruit_NeoPixel_def)

text \<open>
  C10. The list returned by \<open>getDisplayed()\<close> always has \<open>numPixels()\<close> entries: it has
  at construction, and every sequence of calls keeps it so.
\<close>

theorem getDisplayed_length_is_numPixels:
  "int (length (getDisplayed (Adafruit_NeoPixel num))) = numPixels (Adafruit_NeoPixel num)
   \<and> int (length (getDisplayed (run_ops ops (Adafruit_NeoPixel num))))
       = numPixels (run_ops ops (Adafruit_NeoPixel num))"
proof -
  have init: "length (displayed (Adafruit_NeoPixel num)) = length (buffer (Adafruit_NeoPixel num))"
    by (simp add: Adafruit_NeoPixel_def)
  then have "length (displayed (run_ops ops (Adafruit_NeoPixel num)))
               = length (buffer (run_ops ops (Adafruit_NeoPixel num)))"
    by (rule run_ops_snapshot_length)
  with init show ?thesis
    unfolding getDisplayed_def numPixels_def by simp
qed

end
